theory Spec2Isabelle
  imports Main
begin

section \<open>The Slack notification plugin (sentry\_slack/plugin.py)\<close>

text \<open>
  A shallow embedding of \<^verbatim>\<open>SlackPlugin\<close>: the severity colour table, the option
  accessors, tag extraction and filtering, the assembly of the Slack payload and the
  delivery and routing logic of \<^verbatim>\<open>notify\<close>.

  Conventions of the model.
  \<^item> A Python string is a \<^typ>\<open>string\<close>, the list of its code points; a \<^typ>\<open>char\<close> is a
    code point below 256, so text outside Latin-1 is not represented.
    \<^verbatim>\<open>.encode('utf-8')\<close> is the identity on it (the encoding is injective, so
    comparisons of encoded strings are comparisons of the strings).
  \<^item> An option of the project is \<^verbatim>\<open>None\<close> or a value of the type of its form field:
    \<^typ>\<open>string option\<close> for the text and URL fields, \<^typ>\<open>bool option\<close> for the check
    boxes.
  \<^item> The host platform's services (tag labels, key standardisation, URL reversal) are
    parameters, collected in the record \<open>services\<close>.
  \<^item> \<^verbatim>\<open>http.safe_urlopen\<close> appends the request to the list of requests sent so far;
    the list is passed through \<^verbatim>\<open>notify\<close> and returned with its outcome.
  \<^item> An exception is the outcome \<open>Raised\<close>.
\<close>

subsection \<open>Python strings\<close>

definition lower_table :: "(char \<times> char) list" where
  \<comment> \<open>the upper-case letters below 256 with their lower-case letters: A to Z, and the
     Latin-1 letters U+00C0 to U+00DE (without the multiplication sign U+00D7), each 32
     below its lower-case letter\<close>
  "lower_table =
     zip [CHR ''A'', CHR ''B'', CHR ''C'', CHR ''D'', CHR ''E'', CHR ''F'', CHR ''G'', CHR ''H'',
          CHR ''I'', CHR ''J'', CHR ''K'', CHR ''L'', CHR ''M'', CHR ''N'', CHR ''O'', CHR ''P'',
          CHR ''Q'', CHR ''R'', CHR ''S'', CHR ''T'', CHR ''U'', CHR ''V'', CHR ''W'', CHR ''X'',
          CHR ''Y'', CHR ''Z'', CHR 0xC0, CHR 0xC1, CHR 0xC2, CHR 0xC3, CHR 0xC4, CHR 0xC5,
          CHR 0xC6, CHR 0xC7, CHR 0xC8, CHR 0xC9, CHR 0xCA, CHR 0xCB, CHR 0xCC, CHR 0xCD,
          CHR 0xCE, CHR 0xCF, CHR 0xD0, CHR 0xD1, CHR 0xD2, CHR 0xD3, CHR 0xD4, CHR 0xD5,
          CHR 0xD6, CHR 0xD8, CHR 0xD9, CHR 0xDA, CHR 0xDB, CHR 0xDC, CHR 0xDD, CHR 0xDE]
         [CHR ''a'', CHR ''b'', CHR ''c'', CHR ''d'', CHR ''e'', CHR ''f'', CHR ''g'', CHR ''h'',
          CHR ''i'', CHR ''j'', CHR ''k'', CHR ''l'', CHR ''m'', CHR ''n'', CHR ''o'', CHR ''p'',
          CHR ''q'', CHR ''r'', CHR ''s'', CHR ''t'', CHR ''u'', CHR ''v'', CHR ''w'', CHR ''x'',
          CHR ''y'', CHR ''z'', CHR 0xE0, CHR 0xE1, CHR 0xE2, CHR 0xE3, CHR 0xE4, CHR 0xE5,
          CHR 0xE6, CHR 0xE7, CHR 0xE8, CHR 0xE9, CHR 0xEA, CHR 0xEB, CHR 0xEC, CHR 0xED,
          CHR 0xEE, CHR 0xEF, CHR 0xF0, CHR 0xF1, CHR 0xF2, CHR 0xF3, CHR 0xF4, CHR 0xF5,
          CHR 0xF6, CHR 0xF8, CHR 0xF9, CHR 0xFA, CHR 0xFB, CHR 0xFC, CHR 0xFD, CHR 0xFE]"

fun lower_lookup :: "(char \<times> char) list \<Rightarrow> char \<Rightarrow> char" where
  \<comment> \<open>the lower-case letter paired with \<open>c\<close> in the table, and \<open>c\<close> itself if there is none\<close>
  "lower_lookup [] c = c"
| "lower_lookup ((u, l) # table) c = (if c = u then l else lower_lookup table c)"

definition lower_char :: "char \<Rightarrow> char" where
  "lower_char c = lower_lookup lower_table c"

definition lower :: "string \<Rightarrow> string" where
  \<comment> \<open>\<^verbatim>\<open>s.lower()\<close> of a unicode string\<close>
  "lower s = map lower_char s"

definition strip_chars :: "string \<Rightarrow> string \<Rightarrow> string" where
  \<comment> \<open>\<^verbatim>\<open>s.strip(chars)\<close>: drops the leading and trailing characters that are in \<open>chars\<close>\<close>
  "strip_chars chars s =
     rev (dropWhile (\<lambda>c. c \<in> set chars) (rev (dropWhile (\<lambda>c. c \<in> set chars) s)))"

definition whitespace :: string where
  \<comment> \<open>the code points below 256 that \<^verbatim>\<open>isspace\<close> holds of in a unicode string: space,
     U+0009 to U+000D, U+001C to U+001F, U+0085 and U+00A0\<close>
  "whitespace =
     [CHR '' '', CHR 0x09, CHR 0x0A, CHR 0x0B, CHR 0x0C, CHR 0x0D,
      CHR 0x1C, CHR 0x1D, CHR 0x1E, CHR 0x1F, CHR 0x85, CHR 0xA0]"

definition strip :: "string \<Rightarrow> string" where
  \<comment> \<open>\<^verbatim>\<open>s.strip()\<close> of a unicode string\<close>
  "strip s = strip_chars whitespace s"

fun split_str :: "char \<Rightarrow> string \<Rightarrow> string list" where
  \<comment> \<open>\<^verbatim>\<open>s.split(sep)\<close> for a separator of one character: never the empty list\<close>
  "split_str sep [] = [[]]"
| "split_str sep (c # cs) =
     (if c = sep then [] # split_str sep cs
      else (c # hd (split_str sep cs)) # tl (split_str sep cs))"

fun join :: "string \<Rightarrow> string list \<Rightarrow> string" where
  \<comment> \<open>\<^verbatim>\<open>sep.join(xs)\<close>\<close>
  "join sep [] = []"
| "join sep [x] = x"
| "join sep (x # y # ys) = x @ sep @ join sep (y # ys)"

fun contains :: "string \<Rightarrow> string \<Rightarrow> bool" where
  \<comment> \<open>\<^verbatim>\<open>sub in s\<close> on strings: \<open>sub\<close> occurs in \<open>s\<close> as a contiguous substring\<close>
  "contains [] sub = (sub = [])"
| "contains (c # cs) sub = (take (length sub) (c # cs) = sub \<or> contains cs sub)"

subsection \<open>Data model\<close>

record options =
  webhook :: "string option"
  username :: "string option"
  icon_url :: "string option"
  channel :: "string option"
  include_tags :: "bool option"
  included_tag_keys :: "string option"
  excluded_tag_keys :: "string option"
  include_rules :: "bool option"
  sort_on_tag :: "bool option"
  send_to_root_too :: "bool option"
  sort_on_tag_key :: "string option"
  group_1_tag_values :: "string option"
  group_1_channel :: "string option"
  group_2_tag_values :: "string option"
  group_2_channel :: "string option"
  group_3_tag_values :: "string option"
  group_3_channel :: "string option"

record project =
  project_team_name :: string
  project_name :: string
  project_slug :: string
  project_options :: options

record group =
  group_culprit :: "string option"
  group_level_display :: string
  group_absolute_url :: string
  group_organization_slug :: string
  group_project :: project

record event =
  event_message_short :: string
  event_tags :: "(string \<times> string) list"
  event_group :: group

record rule =
  rule_id :: int
  rule_label :: string

record notification =
  notification_event :: event
  notification_rules :: "rule list"

text \<open>
  The host platform: the labels of the project's \<^verbatim>\<open>TagKey\<close> and \<^verbatim>\<open>TagValue\<close> rows,
  \<^verbatim>\<open>TagKey.get_standardized_key\<close>, and \<^verbatim>\<open>absolute_uri(reverse('sentry-edit-project-rule',
  args=[organization slug, project slug, rule id]))\<close>.
\<close>

record services =
  tag_key_label :: "string \<rightharpoonup> string"
  tag_value_label :: "string \<times> string \<rightharpoonup> string"
  get_standardized_key :: "string \<Rightarrow> string"
  rule_uri :: "string \<Rightarrow> string \<Rightarrow> int \<Rightarrow> string"

record attachment_field =
  field_title :: string
  field_value :: string
  field_short :: bool

record attachment =
  attachment_fallback :: string
  attachment_title :: string
  attachment_title_link :: string
  attachment_color :: string
  attachment_fields :: "attachment_field list"

record payload =
  payload_parse :: string
  payload_attachments :: "attachment list"
  payload_username :: "string option"
  payload_channel :: "string option"
  payload_icon_url :: "string option"

record request =
  request_url :: string
  request_method :: string
  request_payload :: payload

datatype error = AttributeError

datatype outcome = Returned | Raised error

subsection \<open>Options and truth values\<close>

definition get_option :: "(options \<Rightarrow> 'a) \<Rightarrow> project \<Rightarrow> 'a" where
  \<comment> \<open>\<^verbatim>\<open>self.get_option(name, project)\<close>; the name is the selector of the option\<close>
  "get_option name project = name (project_options project)"

definition truthy_str :: "string option \<Rightarrow> bool" where
  \<comment> \<open>the truth value of \<^verbatim>\<open>None\<close> or a string\<close>
  "truthy_str x = (case x of None \<Rightarrow> False | Some s \<Rightarrow> s \<noteq> [])"

definition truthy_bool :: "bool option \<Rightarrow> bool" where
  \<comment> \<open>the truth value of \<^verbatim>\<open>None\<close> or a Boolean\<close>
  "truthy_bool x = (case x of None \<Rightarrow> False | Some b \<Rightarrow> b)"

definition str_or :: "string option \<Rightarrow> string \<Rightarrow> string" where
  \<comment> \<open>\<^verbatim>\<open>x or d\<close>\<close>
  "str_or x d = (case x of None \<Rightarrow> d | Some s \<Rightarrow> if s \<noteq> [] then s else d)"

subsection \<open>The plugin\<close>

definition LEVEL_TO_COLOR :: "string \<rightharpoonup> string" where
  "LEVEL_TO_COLOR = map_of
     [(''debug'', ''cfd3da''),
      (''info'', ''2788ce''),
      (''warning'', ''f18500''),
      (''error'', ''f43f20''),
      (''fatal'', ''d20f2a'')]"

definition get_project_full_name :: "project \<Rightarrow> string" where
  "get_project_full_name project =
     (if \<not> contains (project_name project) (project_team_name project)
      then project_team_name project @ '' '' @ project_name project
      else project_name project)"

definition is_configured :: "project \<Rightarrow> bool" where
  "is_configured project = list_all (\<lambda>k. truthy_str (get_option k project)) [webhook]"

definition color_for_group :: "group \<Rightarrow> string" where
  "color_for_group grp =
     ''#'' @ (case LEVEL_TO_COLOR (group_level_display grp) of
                None \<Rightarrow> ''error'' | Some c \<Rightarrow> c)"

definition get_tags :: "services \<Rightarrow> event \<Rightarrow> (string \<times> string) list" where
  \<comment> \<open>\<^verbatim>\<open>_get_tags\<close>: each tag with the labels of its key and value, where they exist\<close>
  "get_tags sv event =
     (let tag_list = event_tags event in
      if tag_list = [] then []
      else map (\<lambda>(k, v).
                  (case tag_key_label sv k of None \<Rightarrow> k | Some l \<Rightarrow> l,
                   case tag_value_label sv (k, v) of None \<Rightarrow> v | Some l \<Rightarrow> l))
               tag_list)"

definition get_tag_list :: "(options \<Rightarrow> string option) \<Rightarrow> project \<Rightarrow> string set option" where
  "get_tag_list name project =
     (case get_option name project of
        None \<Rightarrow> None
      | Some option \<Rightarrow>
          if option = [] then None
          else Some (set (map (\<lambda>tag. lower (strip tag)) (split_str CHR '','' option))))"

definition set_or_empty :: "string set option \<Rightarrow> string set" where
  \<comment> \<open>\<^verbatim>\<open>set(x or [])\<close>\<close>
  "set_or_empty x = (case x of None \<Rightarrow> {} | Some s \<Rightarrow> if s \<noteq> {} then s else {})"

subsection \<open>The fields of the attachment\<close>

definition base_fields :: "services \<Rightarrow> notification \<Rightarrow> attachment_field list" where
  \<comment> \<open>\<^verbatim>\<open>notify\<close>, lines 187 to 229: the fields Culprit, Project and Triggered By\<close>
  "base_fields sv notification =
     (let event = notification_event notification;
          grp = event_group event;
          project = group_project grp;
          title = event_message_short event;
          culprit = (if truthy_str (group_culprit grp) then group_culprit grp else None);
          project_name' = get_project_full_name project;
          fields0 = [];
          fields1 =
            (case culprit of
               None \<Rightarrow> fields0
             | Some c \<Rightarrow>
                 if c \<noteq> [] \<and> title \<noteq> c
                 then fields0 @ [\<lparr>field_title = ''Culprit'', field_value = c, field_short = False\<rparr>]
                 else fields0);
          fields2 =
            fields1 @ [\<lparr>field_title = ''Project'', field_value = project_name', field_short = True\<rparr>]
      in if truthy_bool (get_option include_rules project) then
           (let rules =
                  map (\<lambda>rule.
                         (rule_uri sv (group_organization_slug grp) (project_slug project) (rule_id rule),
                          rule_label rule))
                      (notification_rules notification)
            in if rules \<noteq> [] then
                 fields2 @
                   [\<lparr>field_title = ''Triggered By'',
                     field_value = join '', '' (map (\<lambda>(l, b). ''<'' @ l @ '' | '' @ b @ ''>'') rules),
                     field_short = False\<rparr>]
               else fields2)
         else fields2)"

fun tag_fields ::
  "services \<Rightarrow> string set \<Rightarrow> string set \<Rightarrow> (string \<times> string) list \<Rightarrow>
   attachment_field list \<Rightarrow> attachment_field list" where
  \<comment> \<open>the loop of lines 234 to 245 over the extracted tags; \<open>fields'\<close> is the list appended to\<close>
  "tag_fields sv included_tags excluded_tags [] fields' = fields'"
| "tag_fields sv included_tags excluded_tags ((tag_key, tag_value) # rest) fields' =
     (let key = lower tag_key;
          std_key = get_standardized_key sv key
      in if included_tags \<noteq> {} \<and> key \<notin> included_tags \<and> std_key \<notin> included_tags
         then tag_fields sv included_tags excluded_tags rest fields'
         else if excluded_tags \<noteq> {} \<and> (key \<in> excluded_tags \<or> std_key \<in> excluded_tags)
         then tag_fields sv included_tags excluded_tags rest fields'
         else tag_fields sv included_tags excluded_tags rest
                (fields' @
                   [\<lparr>field_title = tag_key, field_value = tag_value, field_short = True\<rparr>]))"

definition notify_fields :: "services \<Rightarrow> notification \<Rightarrow> attachment_field list" where
  \<comment> \<open>\<^verbatim>\<open>notify\<close>, lines 187 to 245: the value of \<^verbatim>\<open>fields\<close> when the payload is built\<close>
  "notify_fields sv notification =
     (let event = notification_event notification;
          project = group_project (event_group event);
          fields' = base_fields sv notification
      in if truthy_bool (get_option include_tags project) then
           (let included_tags = set_or_empty (get_tag_list included_tag_keys project);
                excluded_tags = set_or_empty (get_tag_list excluded_tag_keys project)
            in tag_fields sv included_tags excluded_tags (get_tags sv event) fields')
         else fields')"

subsection \<open>The payload\<close>

definition notify_payload :: "services \<Rightarrow> notification \<Rightarrow> payload" where
  \<comment> \<open>\<^verbatim>\<open>notify\<close>, lines 181 to 268: the payload with its optional keys\<close>
  "notify_payload sv notification =
     (let event = notification_event notification;
          grp = event_group event;
          project = group_project grp;
          username' = strip (str_or (get_option username project) ''Sentry'');
          icon_url' = get_option icon_url project;
          channel' = strip (str_or (get_option channel project) []);
          title = event_message_short event;
          project_name' = get_project_full_name project;
          payload0 =
            \<lparr>payload_parse = ''none'',
             payload_attachments =
               [\<lparr>attachment_fallback = ''['' @ project_name' @ ''] '' @ title,
                 attachment_title = title,
                 attachment_title_link = group_absolute_url grp,
                 attachment_color = color_for_group grp,
                 attachment_fields = notify_fields sv notification\<rparr>],
             payload_username = None,
             payload_channel = None,
             payload_icon_url = None\<rparr>;
          payload1 =
            (if username' \<noteq> [] then payload0\<lparr>payload_username := Some username'\<rparr> else payload0);
          payload2 =
            (if channel' \<noteq> [] then payload1\<lparr>payload_channel := Some channel'\<rparr> else payload1)
      in if truthy_str icon_url' then payload2\<lparr>payload_icon_url := icon_url'\<rparr> else payload2)"

subsection \<open>Delivery and routing\<close>

definition safe_urlopen :: "string \<Rightarrow> string \<Rightarrow> payload \<Rightarrow> request list \<Rightarrow> request list" where
  \<comment> \<open>\<^verbatim>\<open>http.safe_urlopen(url, method=method, data={'payload': json.dumps(payload)})\<close>\<close>
  "safe_urlopen url method p sent =
     sent @ [\<lparr>request_url = url, request_method = method, request_payload = p\<rparr>]"

record routing_group =
  tag_values :: "string list"
  routing_channel :: string

definition split_values :: "string option \<Rightarrow> error + string list" where
  \<comment> \<open>\<^verbatim>\<open>option.split(',') or []\<close>; \<^verbatim>\<open>None\<close> has no \<^verbatim>\<open>split\<close>\<close>
  "split_values x =
     (case x of
        None \<Rightarrow> Inl AttributeError
      | Some s \<Rightarrow> Inr (let vs = split_str CHR '','' s in if vs \<noteq> [] then vs else []))"

definition routing_groups :: "project \<Rightarrow> error + routing_group list" where
  \<comment> \<open>\<^verbatim>\<open>notify\<close>, lines 275 to 281\<close>
  "routing_groups project =
     (case split_values (get_option group_1_tag_values project) of
        Inl e \<Rightarrow> Inl e
      | Inr v1 \<Rightarrow>
     (case split_values (get_option group_2_tag_values project) of
        Inl e \<Rightarrow> Inl e
      | Inr v2 \<Rightarrow>
     (case split_values (get_option group_3_tag_values project) of
        Inl e \<Rightarrow> Inl e
      | Inr v3 \<Rightarrow>
          Inr [\<lparr>tag_values = v1,
                 routing_channel = strip (str_or (get_option group_1_channel project) [])\<rparr>,
               \<lparr>tag_values = v2,
                 routing_channel = strip (str_or (get_option group_2_channel project) [])\<rparr>,
               \<lparr>tag_values = v3,
                 routing_channel = strip (str_or (get_option group_3_channel project) [])\<rparr>])))"

fun find_tag_value :: "string \<Rightarrow> (string \<times> string) list \<Rightarrow> string option" where
  \<comment> \<open>the \<^verbatim>\<open>for ... else\<close> of lines 283 to 289: the value of the first tag with the key\<close>
  "find_tag_value sort_on_tag_key' [] = None"
| "find_tag_value sort_on_tag_key' ((key, val) # rest) =
     (if sort_on_tag_key' = key then Some val else find_tag_value sort_on_tag_key' rest)"

fun send_to_groups ::
  "string \<Rightarrow> string \<Rightarrow> routing_group list \<Rightarrow> payload \<times> request list \<Rightarrow>
   payload \<times> request list" where
  \<comment> \<open>the loop of lines 291 to 295; the state is the payload and the requests sent\<close>
  "send_to_groups webhook' tag_value [] (p, sent) = (p, sent)"
| "send_to_groups webhook' tag_value (g # groups) (p, sent) =
     (if tag_value \<in> set (tag_values g) then
        (let p' = p\<lparr>payload_channel := Some (routing_channel g)\<rparr>
         in send_to_groups webhook' tag_value groups (p', safe_urlopen webhook' ''POST'' p' sent))
      else send_to_groups webhook' tag_value groups (p, sent))"

definition notify :: "services \<Rightarrow> notification \<Rightarrow> request list \<Rightarrow> outcome \<times> request list" where
  "notify sv notification sent =
     (let event = notification_event notification;
          grp = event_group event;
          project = group_project grp
      in if \<not> is_configured project then (Returned, sent)
         else
           (let sort_on_tag' = get_option sort_on_tag project;
                send_to_root_too' = get_option send_to_root_too project;
                p = notify_payload sv notification
            in case get_option webhook project of
                 None \<Rightarrow> (Raised AttributeError, sent)
               | Some w \<Rightarrow>
                   (let webhook' = strip_chars '' '' w
                    in if truthy_bool sort_on_tag' then
                         (let sent1 =
                                (if truthy_bool send_to_root_too'
                                 then safe_urlopen webhook' ''POST'' p sent else sent);
                              sort_on_tag_key' =
                                strip (str_or (get_option sort_on_tag_key project) ''application_name'')
                          in case routing_groups project of
                               Inl e \<Rightarrow> (Raised e, sent1)
                             | Inr groups \<Rightarrow>
                                 (case find_tag_value sort_on_tag_key' (get_tags sv event) of
                                    None \<Rightarrow> (Returned, sent1)
                                  | Some tag_value \<Rightarrow>
                                      (Returned,
                                       snd (send_to_groups webhook' tag_value groups (p, sent1)))))
                       else (Returned, safe_urlopen webhook' ''POST'' p sent))))"

subsection \<open>A sample notification\<close>

text \<open>
  A project with tag routing and the root send switched on, and an event of it; the
  theorems below are instantiated at variations of this notification.
\<close>

definition sample_options :: options where
  "sample_options =
     \<lparr>webhook = Some ''  https://x  '',
      username = None,
      icon_url = None,
      channel = Some '' #general'',
      include_tags = Some True,
      included_tag_keys = Some ''env, release'',
      excluded_tag_keys = None,
      include_rules = Some True,
      sort_on_tag = Some True,
      send_to_root_too = Some True,
      sort_on_tag_key = None,
      group_1_tag_values = Some ''api,web'',
      group_1_channel = Some ''#one'',
      group_2_tag_values = Some ''db'',
      group_2_channel = Some ''#two'',
      group_3_tag_values = Some ''web,worker'',
      group_3_channel = Some ''#three''\<rparr>"

definition sample_project :: project where
  "sample_project =
     \<lparr>project_team_name = ''ops'',
      project_name = ''shop'',
      project_slug = ''shop'',
      project_options = sample_options\<rparr>"

definition sample_group :: group where
  "sample_group =
     \<lparr>group_culprit = Some ''views.index'',
      group_level_display = ''error'',
      group_absolute_url = ''https://sentry/acme/shop/1'',
      group_organization_slug = ''acme'',
      group_project = sample_project\<rparr>"

definition sample_event :: event where
  "sample_event =
     \<lparr>event_message_short = ''KeyError'',
      event_tags = [(''env'', ''prod''), (''browser'', ''ff''), (''application_name'', ''web'')],
      event_group = sample_group\<rparr>"

definition sample_notification :: notification where
  "sample_notification =
     \<lparr>notification_event = sample_event,
      notification_rules = [\<lparr>rule_id = 7, rule_label = ''any''\<rparr>]\<rparr>"

definition sample_services :: services where
  \<comment> \<open>no labels stored; keys standardised by dropping the prefix \<^verbatim>\<open>sentry:\<close>\<close>
  "sample_services =
     \<lparr>tag_key_label = Map.empty,
      tag_value_label = Map.empty,
      get_standardized_key =
        (\<lambda>key. if take 7 key = ''sentry:'' then drop 7 key else key),
      rule_uri = (\<lambda>org slug i. ''https://sentry/'' @ org @ ''/'' @ slug @ ''/rules/'')\<rparr>"

definition labelled_services :: services where
  \<comment> \<open>as \<open>sample_services\<close>, with labels stored for the keys \<^verbatim>\<open>env\<close> and \<^verbatim>\<open>browser\<close>\<close>
  "labelled_services =
     sample_services\<lparr>tag_key_label :=
       [''env'' \<mapsto> ''Environment'', ''browser'' \<mapsto> ''Browser Name'']\<rparr>"

definition with_options :: "(options \<Rightarrow> options) \<Rightarrow> notification \<Rightarrow> notification" where
  \<comment> \<open>the same notification, on a project whose options are changed by \<open>f\<close>\<close>
  "with_options f notification =
     notification\<lparr>notification_event :=
       (notification_event notification)\<lparr>event_group :=
         (event_group (notification_event notification))\<lparr>group_project :=
           (group_project (event_group (notification_event notification)))\<lparr>project_options :=
             f (project_options
                  (group_project (event_group (notification_event notification))))\<rparr>\<rparr>\<rparr>\<rparr>"

definition with_tags :: "(string \<times> string) list \<Rightarrow> notification \<Rightarrow> notification" where
  \<comment> \<open>the same notification, for an event with the tags \<open>ts\<close>\<close>
  "with_tags ts notification =
     notification\<lparr>notification_event := (notification_event notification)\<lparr>event_tags := ts\<rparr>\<rparr>"

definition project_of :: "notification \<Rightarrow> project" where
  \<comment> \<open>\<^verbatim>\<open>notification.event.group.project\<close>\<close>
  "project_of notification = group_project (event_group (notification_event notification))"

section \<open>Auxiliary facts\<close>

text \<open>
  For evaluation, \<open>lower_char\<close> as a chain of comparisons, without the table.
\<close>

lemma lower_char_eval:
  "lower_char c =
     (if c = CHR ''A'' then CHR ''a'' else
      if c = CHR ''B'' then CHR ''b'' else
      if c = CHR ''C'' then CHR ''c'' else
      if c = CHR ''D'' then CHR ''d'' else
      if c = CHR ''E'' then CHR ''e'' else
      if c = CHR ''F'' then CHR ''f'' else
      if c = CHR ''G'' then CHR ''g'' else
      if c = CHR ''H'' then CHR ''h'' else
      if c = CHR ''I'' then CHR ''i'' else
      if c = CHR ''J'' then CHR ''j'' else
      if c = CHR ''K'' then CHR ''k'' else
      if c = CHR ''L'' then CHR ''l'' else
      if c = CHR ''M'' then CHR ''m'' else
      if c = CHR ''N'' then CHR ''n'' else
      if c = CHR ''O'' then CHR ''o'' else
      if c = CHR ''P'' then CHR ''p'' else
      if c = CHR ''Q'' then CHR ''q'' else
      if c = CHR ''R'' then CHR ''r'' else
      if c = CHR ''S'' then CHR ''s'' else
      if c = CHR ''T'' then CHR ''t'' else
      if c = CHR ''U'' then CHR ''u'' else
      if c = CHR ''V'' then CHR ''v'' else
      if c = CHR ''W'' then CHR ''w'' else
      if c = CHR ''X'' then CHR ''x'' else
      if c = CHR ''Y'' then CHR ''y'' else
      if c = CHR ''Z'' then CHR ''z'' else
      if c = CHR 0xC0 then CHR 0xE0 else
      if c = CHR 0xC1 then CHR 0xE1 else
      if c = CHR 0xC2 then CHR 0xE2 else
      if c = CHR 0xC3 then CHR 0xE3 else
      if c = CHR 0xC4 then CHR 0xE4 else
      if c = CHR 0xC5 then CHR 0xE5 else
      if c = CHR 0xC6 then CHR 0xE6 else
      if c = CHR 0xC7 then CHR 0xE7 else
      if c = CHR 0xC8 then CHR 0xE8 else
      if c = CHR 0xC9 then CHR 0xE9 else
      if c = CHR 0xCA then CHR 0xEA else
      if c = CHR 0xCB then CHR 0xEB else
      if c = CHR 0xCC then CHR 0xEC else
      if c = CHR 0xCD then CHR 0xED else
      if c = CHR 0xCE then CHR 0xEE else
      if c = CHR 0xCF then CHR 0xEF else
      if c = CHR 0xD0 then CHR 0xF0 else
      if c = CHR 0xD1 then CHR 0xF1 else
      if c = CHR 0xD2 then CHR 0xF2 else
      if c = CHR 0xD3 then CHR 0xF3 else
      if c = CHR 0xD4 then CHR 0xF4 else
      if c = CHR 0xD5 then CHR 0xF5 else
      if c = CHR 0xD6 then CHR 0xF6 else
      if c = CHR 0xD8 then CHR 0xF8 else
      if c = CHR 0xD9 then CHR 0xF9 else
      if c = CHR 0xDA then CHR 0xFA else
      if c = CHR 0xDB then CHR 0xFB else
      if c = CHR 0xDC then CHR 0xFC else
      if c = CHR 0xDD then CHR 0xFD else
      if c = CHR 0xDE then CHR 0xFE else
      c)"
  by (simp add: lower_char_def lower_table_def cong: if_cong)

lemmas sample_defs = sample_options_def sample_project_def sample_group_def sample_event_def
  sample_notification_def sample_services_def with_options_def with_tags_def project_of_def

lemmas plugin_defs = notify_def is_configured_def get_option_def truthy_str_def truthy_bool_def
  str_or_def notify_payload_def notify_fields_def base_fields_def get_tags_def get_tag_list_def
  set_or_empty_def routing_groups_def split_values_def safe_urlopen_def strip_def strip_chars_def
  whitespace_def lower_def lower_char_eval get_project_full_name_def
  color_for_group_def LEVEL_TO_COLOR_def

lemma split_str_nonempty: "split_str sep s \<noteq> []"
  by (induction s) auto

lemma send_to_groups_sent:
  "snd (send_to_groups w tv gs (p, sent)) =
     sent @ map (\<lambda>g. \<lparr>request_url = w, request_method = ''POST'',
                      request_payload = p\<lparr>payload_channel := Some (routing_channel g)\<rparr>\<rparr>)
              (filter (\<lambda>g. tv \<in> set (tag_values g)) gs)"
  by (induction gs arbitrary: p sent) (auto simp: Let_def safe_urlopen_def)

lemma find_tag_value_None:
  "find_tag_value key tags = None \<longleftrightarrow> (\<forall>(k, v) \<in> set tags. k \<noteq> key)"
  by (induction tags) (auto split: if_splits)

lemma is_configured_iff:
  "is_configured project \<longleftrightarrow> (\<exists>w. get_option webhook project = Some w \<and> w \<noteq> [])"
  by (auto simp: is_configured_def truthy_str_def split: option.splits)

lemma notify_unsorted:
  assumes "get_option webhook (project_of n) = Some w" and "w \<noteq> []"
    and "\<not> truthy_bool (get_option sort_on_tag (project_of n))"
  shows "notify sv n sent =
           (Returned, sent @ [\<lparr>request_url = strip_chars '' '' w, request_method = ''POST'',
                               request_payload = notify_payload sv n\<rparr>])"
  using assms
  by (simp add: notify_def Let_def is_configured_iff project_of_def safe_urlopen_def)

lemma notify_sorted:
  assumes "get_option webhook (project_of n) = Some w" and "w \<noteq> []"
    and "truthy_bool (get_option sort_on_tag (project_of n))"
  shows "notify sv n sent =
           (let sent1 = sent @
                  (if truthy_bool (get_option send_to_root_too (project_of n))
                   then [\<lparr>request_url = strip_chars '' '' w, request_method = ''POST'',
                          request_payload = notify_payload sv n\<rparr>]
                   else [])
            in case routing_groups (project_of n) of
                 Inl e \<Rightarrow> (Raised e, sent1)
               | Inr groups \<Rightarrow>
                   (case find_tag_value
                           (strip (str_or (get_option sort_on_tag_key (project_of n))
                                     ''application_name''))
                           (get_tags sv (notification_event n)) of
                      None \<Rightarrow> (Returned, sent1)
                    | Some tv \<Rightarrow>
                        (Returned,
                         sent1 @
                         map (\<lambda>g. \<lparr>request_url = strip_chars '' '' w, request_method = ''POST'',
                                    request_payload =
                                      (notify_payload sv n)\<lparr>payload_channel :=
                                         Some (routing_channel g)\<rparr>\<rparr>)
                           (filter (\<lambda>g. tv \<in> set (tag_values g)) groups))))"
  using assms
  by (simp add: notify_def Let_def is_configured_iff project_of_def safe_urlopen_def
        send_to_groups_sent split: sum.splits option.splits)

lemma payload_channel_default:
  "payload_channel (notify_payload sv n) =
     (if strip (str_or (get_option channel (project_of n)) []) \<noteq> []
      then Some (strip (str_or (get_option channel (project_of n)) [])) else None)"
  by (simp add: notify_payload_def Let_def project_of_def)

lemma color_for_group_known_levels:
  "color_for_group (grp\<lparr>group_level_display := ''debug''\<rparr>) = ''#cfd3da''"
  "color_for_group (grp\<lparr>group_level_display := ''info''\<rparr>) = ''#2788ce''"
  "color_for_group (grp\<lparr>group_level_display := ''warning''\<rparr>) = ''#f18500''"
  "color_for_group (grp\<lparr>group_level_display := ''error''\<rparr>) = ''#f43f20''"
  "color_for_group (grp\<lparr>group_level_display := ''fatal''\<rparr>) = ''#d20f2a''"
  by (simp_all add: color_for_group_def LEVEL_TO_COLOR_def)

lemma color_for_group_not_in_table:
  "LEVEL_TO_COLOR (group_level_display grp) = None \<Longrightarrow> color_for_group grp = ''#error''"
  by (simp add: color_for_group_def)

lemma tag_set_nonempty_iff:
  "set_or_empty (get_tag_list name project) \<noteq> {} \<longleftrightarrow> truthy_str (get_option name project)"
  by (auto simp: set_or_empty_def get_tag_list_def truthy_str_def split_str_nonempty
           split: option.splits)

lemma tag_fields_filter:
  "tag_fields sv inc exc tags fs =
     fs @ map (\<lambda>(k, v). \<lparr>field_title = k, field_value = v, field_short = True\<rparr>)
            (filter (\<lambda>(k, v).
               (inc \<noteq> {} \<longrightarrow> lower k \<in> inc \<or> get_standardized_key sv (lower k) \<in> inc) \<and>
               (exc \<noteq> {} \<longrightarrow> lower k \<notin> exc \<and> get_standardized_key sv (lower k) \<notin> exc))
             tags)"
proof -
  define keep where "keep = (\<lambda>(k :: string, v :: string).
               (inc \<noteq> {} \<longrightarrow> lower k \<in> inc \<or> get_standardized_key sv (lower k) \<in> inc) \<and>
               (exc \<noteq> {} \<longrightarrow> lower k \<notin> exc \<and> get_standardized_key sv (lower k) \<notin> exc))"
  define mk where "mk = (\<lambda>(k :: string, v :: string). \<lparr>field_title = k, field_value = v, field_short = True\<rparr>)"
  have step: "tag_fields sv inc exc (t # ts) fs' =
                tag_fields sv inc exc ts (if keep t then fs' @ [mk t] else fs')" for t ts fs'
    by (cases t) (auto simp: keep_def mk_def Let_def)
  have "tag_fields sv inc exc tags fs = fs @ map mk (filter keep tags)"
  proof (induction tags arbitrary: fs)
    case Nil
    show ?case by simp
  next
    case (Cons t tags)
    show ?case by (simp only: step Cons.IH) simp
  qed
  then show ?thesis by (simp only: keep_def mk_def)
qed

lemma tag_fields_short:
  "\<exists>ts. tag_fields sv inc exc tags fs = fs @ ts \<and> (\<forall>f \<in> set ts. field_short f)"
  unfolding tag_fields_filter by auto

lemma notify_fields_tail:
  "\<exists>ts. notify_fields sv n = base_fields sv n @ ts \<and> (\<forall>f \<in> set ts. field_short f)"
proof (cases "truthy_bool (get_option include_tags (group_project (event_group (notification_event n))))")
  case True
  then show ?thesis
    using tag_fields_short by (simp add: notify_fields_def Let_def)
next
  case False
  then show ?thesis by (simp add: notify_fields_def Let_def)
qed

lemma base_fields_culprit:
  "\<exists>bs. base_fields sv n =
          (case group_culprit (event_group (notification_event n)) of
             None \<Rightarrow> []
           | Some c \<Rightarrow>
               if c \<noteq> [] \<and> c \<noteq> event_message_short (notification_event n)
               then [\<lparr>field_title = ''Culprit'', field_value = c, field_short = False\<rparr>]
               else []) @ bs \<and>
        (\<forall>f \<in> set bs. field_title f \<noteq> ''Culprit'')"
  by (auto simp: base_fields_def Let_def truthy_str_def split: option.splits)

lemma dropWhile_replicate_append:
  "P c \<Longrightarrow> dropWhile P (replicate a c @ xs) = dropWhile P xs"
  by (induction a) auto

lemma strip_chars_padded:
  assumes "c \<in> set chars"
  shows "strip_chars chars (replicate a c @ s @ replicate b c) = strip_chars chars s"
proof -
  let ?P = "\<lambda>x. x \<in> set chars"
  have l: "dropWhile ?P (replicate a c @ s @ replicate b c) = dropWhile ?P (s @ replicate b c)"
    using assms by (simp add: dropWhile_replicate_append)
  show ?thesis
  proof (cases "\<forall>x \<in> set s. ?P x")
    case True
    then have "\<forall>x \<in> set (s @ replicate b c). ?P x" using assms by auto
    then have "dropWhile ?P (s @ replicate b c) = []" by (simp only: dropWhile_eq_Nil_conv)
    moreover from True have "dropWhile ?P s = []" by simp
    ultimately show ?thesis unfolding strip_chars_def l by (simp only: rev.simps dropWhile.simps)
  next
    case False
    then have "dropWhile ?P (s @ replicate b c) = dropWhile ?P s @ replicate b c"
      by (auto simp: dropWhile_append1)
    then show ?thesis
      using assms by (simp add: strip_chars_def l dropWhile_replicate_append)
  qed
qed

lemma base_fields_webhook:
  "base_fields sv (with_options (webhook_update f) n) = base_fields sv n"
  by (simp add: base_fields_def get_option_def get_project_full_name_def with_options_def
        Let_def cong: option.case_cong)

lemma notify_fields_webhook:
  "notify_fields sv (with_options (webhook_update f) n) = notify_fields sv n"
  unfolding notify_fields_def base_fields_webhook
  by (simp add: get_option_def get_tag_list_def get_tags_def with_options_def Let_def)

lemma notify_payload_webhook:
  "notify_payload sv (with_options (webhook_update f) n) = notify_payload sv n"
  unfolding notify_payload_def notify_fields_webhook
  by (simp add: get_option_def get_project_full_name_def color_for_group_def
        with_options_def Let_def)

lemma routing_groups_webhook:
  "routing_groups (project_of (with_options (webhook_update f) n)) = routing_groups (project_of n)"
  by (simp add: routing_groups_def get_option_def with_options_def project_of_def
        cong: sum.case_cong)

lemma get_option_webhook_set:
  "get_option webhook (project_of (with_options (webhook_update (\<lambda>_. x)) n)) = x"
  by (simp add: get_option_def with_options_def project_of_def)

lemma sort_on_tag_webhook:
  "get_option sort_on_tag (project_of (with_options (webhook_update f) n)) =
   get_option sort_on_tag (project_of n)"
  by (simp add: get_option_def with_options_def project_of_def)

lemma send_to_root_too_webhook:
  "get_option send_to_root_too (project_of (with_options (webhook_update f) n)) =
   get_option send_to_root_too (project_of n)"
  by (simp add: get_option_def with_options_def project_of_def)

lemma sort_on_tag_key_webhook:
  "get_option sort_on_tag_key (project_of (with_options (webhook_update f) n)) =
   get_option sort_on_tag_key (project_of n)"
  by (simp add: get_option_def with_options_def project_of_def)

lemma get_tags_webhook:
  "get_tags sv (notification_event (with_options f n)) = get_tags sv (notification_event n)"
  by (simp add: get_tags_def with_options_def Let_def)

lemmas webhook_irrelevant = notify_payload_webhook routing_groups_webhook sort_on_tag_webhook
  send_to_root_too_webhook sort_on_tag_key_webhook get_tags_webhook

lemma notify_with_webhook:
  assumes "x \<noteq> []"
  shows "notify sv (with_options (webhook_update (\<lambda>_. Some x)) n) sent =
           (if truthy_bool (get_option sort_on_tag (project_of n)) then
              (let sent1 = sent @
                  (if truthy_bool (get_option send_to_root_too (project_of n))
                   then [\<lparr>request_url = strip_chars '' '' x, request_method = ''POST'',
                          request_payload = notify_payload sv n\<rparr>]
                   else [])
               in case routing_groups (project_of n) of
                 Inl e \<Rightarrow> (Raised e, sent1)
               | Inr groups \<Rightarrow>
                   (case find_tag_value
                           (strip (str_or (get_option sort_on_tag_key (project_of n))
                                     ''application_name''))
                           (get_tags sv (notification_event n)) of
                      None \<Rightarrow> (Returned, sent1)
                    | Some tv \<Rightarrow>
                        (Returned,
                         sent1 @
                         map (\<lambda>g. \<lparr>request_url = strip_chars '' '' x, request_method = ''POST'',
                                    request_payload =
                                      (notify_payload sv n)\<lparr>payload_channel :=
                                         Some (routing_channel g)\<rparr>\<rparr>)
                           (filter (\<lambda>g. tv \<in> set (tag_values g)) groups))))
            else (Returned, sent @ [\<lparr>request_url = strip_chars '' '' x, request_method = ''POST'',
                               request_payload = notify_payload sv n\<rparr>]))"
proof (cases "truthy_bool (get_option sort_on_tag (project_of n))")
  case True
  then have t: "truthy_bool (get_option sort_on_tag
                  (project_of (with_options (webhook_update (\<lambda>_. Some x)) n)))"
    by (simp add: sort_on_tag_webhook)
  show ?thesis
    unfolding notify_sorted [OF get_option_webhook_set assms t] webhook_irrelevant
    using True by simp
next
  case False
  then have t: "\<not> truthy_bool (get_option sort_on_tag
                  (project_of (with_options (webhook_update (\<lambda>_. Some x)) n)))"
    by (simp add: sort_on_tag_webhook)
  show ?thesis
    unfolding notify_unsorted [OF get_option_webhook_set assms t] webhook_irrelevant
    using False by simp
qed

lemma join_cons_char: "join sep ((c # h) # t) = c # join sep (h # t)"
  by (cases t) simp_all

lemma join_split_str: "join [sep] (split_str sep s) = s"
proof (induction s)
  case Nil
  show ?case by simp
next
  case (Cons c cs)
  obtain h t where r: "split_str sep cs = h # t"
    using split_str_nonempty [of sep cs] by (cases "split_str sep cs") auto
  from Cons.IH show ?case by (simp add: r join_cons_char)
qed

lemma split_str_no_sep: "e \<in> set (split_str sep s) \<Longrightarrow> sep \<notin> set e"
proof (induction s arbitrary: e)
  case Nil
  then show ?case by simp
next
  case (Cons c cs)
  obtain h t where r: "split_str sep cs = h # t"
    using split_str_nonempty [of sep cs] by (cases "split_str sep cs") auto
  from Cons.prems Cons.IH show ?case by (auto simp: r split: if_splits)
qed

text \<open>
  For evaluation, the equation of \<open>split_str\<close> with its recursive call written once: the
  simplifier then splits a string literal in linear time.
\<close>

lemma split_str_Cons:
  "split_str sep (c # cs) =
     (case split_str sep cs of
        [] \<Rightarrow> []
      | w # ws \<Rightarrow> if c = sep then [] # w # ws else (c # w) # ws)"
  using split_str_nonempty [of sep cs] by (cases "split_str sep cs") simp_all

declare split_str.simps(2) [simp del]

declare split_str_Cons [simp]

section \<open>The claims\<close>

text \<open>
  Claim C1. A level of the table is mapped to \<open>#\<close> and its colour (lemma
  \<open>color_for_group_known_levels\<close>). For a level that is not in the table the default
  of the lookup is the string \<^verbatim>\<open>'error'\<close>, not the colour stored under that key: the
  result is \<^verbatim>\<open>#error\<close>, which is not the error colour \<^verbatim>\<open>#f43f20\<close>.
\<close>

theorem color_for_group_unknown_level:
  "color_for_group (grp\<lparr>group_level_display := ''critical''\<rparr>) = ''#error''"
  by (simp add: color_for_group_def LEVEL_TO_COLOR_def)

text \<open>
  Claim C2, as amended. The pairs of tag extraction are the display key and the display
  value of each tag of the event: the label stored for the key (for the value), and the
  raw key (value) where none is stored. With \<^verbatim>\<open>include_tags\<close> on, the fields after the
  base fields are the short fields of these pairs, in order, each titled by the display key
  with the display value, for exactly the pairs that pass both filters: when
  \<^verbatim>\<open>included_tag_keys\<close> is configured, the lower-cased display key or its standardised
  form is in that set; when \<^verbatim>\<open>excluded_tag_keys\<close> is configured, neither of the two is in
  that set (so exclusion wins over inclusion). The raw key of a labelled tag is not tested.
\<close>

theorem tag_fields_filter_display_key:
  assumes "truthy_bool (get_option include_tags (project_of notification))"
    and "included = set_or_empty (get_tag_list included_tag_keys (project_of notification))"
    and "excluded = set_or_empty (get_tag_list excluded_tag_keys (project_of notification))"
    and "display =
           map (\<lambda>(raw_key, raw_value).
                  (case tag_key_label sv raw_key of None \<Rightarrow> raw_key | Some l \<Rightarrow> l,
                   case tag_value_label sv (raw_key, raw_value) of
                     None \<Rightarrow> raw_value | Some l \<Rightarrow> l))
               (event_tags (notification_event notification))"
  shows "get_tags sv (notification_event notification) = display \<and>
         notify_fields sv notification =
           base_fields sv notification @
           map (\<lambda>(k, v). \<lparr>field_title = k, field_value = v, field_short = True\<rparr>)
             (filter (\<lambda>(k, v).
                (truthy_str (get_option included_tag_keys (project_of notification)) \<longrightarrow>
                   lower k \<in> included \<or> get_standardized_key sv (lower k) \<in> included) \<and>
                (truthy_str (get_option excluded_tag_keys (project_of notification)) \<longrightarrow>
                   lower k \<notin> excluded \<and> get_standardized_key sv (lower k) \<notin> excluded))
              display)"
proof -
  have d: "get_tags sv (notification_event notification) = display"
    unfolding assms(4) by (simp add: get_tags_def Let_def)
  have "notify_fields sv notification =
           base_fields sv notification @
           map (\<lambda>(k, v). \<lparr>field_title = k, field_value = v, field_short = True\<rparr>)
             (filter (\<lambda>(k, v).
                (truthy_str (get_option included_tag_keys (project_of notification)) \<longrightarrow>
                   lower k \<in> included \<or> get_standardized_key sv (lower k) \<in> included) \<and>
                (truthy_str (get_option excluded_tag_keys (project_of notification)) \<longrightarrow>
                   lower k \<notin> excluded \<and> get_standardized_key sv (lower k) \<notin> excluded))
              (get_tags sv (notification_event notification)))"
    using assms(1,2,3)
    by (simp add: notify_fields_def Let_def tag_fields_filter tag_set_nonempty_iff
          project_of_def)
  with d show ?thesis by simp
qed

theorem tag_fields_filter_display_key_witness:
  "truthy_bool
     (get_option include_tags
        (project_of
           (with_options
              (\<lambda>opts. opts\<lparr>included_tag_keys := Some ''Environment, Browser Name'',
                            excluded_tag_keys := Some ''browser name''\<rparr>)
              sample_notification))) \<and>
   event_tags
     (notification_event
        (with_options
           (\<lambda>opts. opts\<lparr>included_tag_keys := Some ''Environment, Browser Name'',
                         excluded_tag_keys := Some ''browser name''\<rparr>)
           sample_notification))
     = [(''env'', ''prod''), (''browser'', ''ff''), (''application_name'', ''web'')] \<and>
   get_tags labelled_services
     (notification_event
        (with_options
           (\<lambda>opts. opts\<lparr>included_tag_keys := Some ''Environment, Browser Name'',
                         excluded_tag_keys := Some ''browser name''\<rparr>)
           sample_notification))
     = [(''Environment'', ''prod''), (''Browser Name'', ''ff''),
        (''application_name'', ''web'')] \<and>
   notify_fields labelled_services
     (with_options
        (\<lambda>opts. opts\<lparr>included_tag_keys := Some ''Environment, Browser Name'',
                      excluded_tag_keys := Some ''browser name''\<rparr>)
        sample_notification) =
     base_fields labelled_services
       (with_options
          (\<lambda>opts. opts\<lparr>included_tag_keys := Some ''Environment, Browser Name'',
                        excluded_tag_keys := Some ''browser name''\<rparr>)
          sample_notification) @
     [\<lparr>field_title = ''Environment'', field_value = ''prod'', field_short = True\<rparr>]"
proof -
  define n where "n = with_options
        (\<lambda>opts. opts\<lparr>included_tag_keys := Some ''Environment, Browser Name'',
                      excluded_tag_keys := Some ''browser name''\<rparr>)
        sample_notification"
  have h1: "truthy_bool (get_option include_tags (project_of n))"
    by (simp add: n_def get_option_def truthy_bool_def sample_defs)
  have h2: "set_or_empty (get_tag_list included_tag_keys (project_of n))
              = {''environment'', ''browser name''}"
    by (simp add: n_def sample_defs plugin_defs)
  have h3: "set_or_empty (get_tag_list excluded_tag_keys (project_of n)) = {''browser name''}"
    by (simp add: n_def sample_defs plugin_defs)
  have e: "event_tags (notification_event n)
     = [(''env'', ''prod''), (''browser'', ''ff''), (''application_name'', ''web'')]"
    by (simp add: n_def sample_defs)
  have l: "tag_key_label labelled_services =
             [''env'' \<mapsto> ''Environment'', ''browser'' \<mapsto> ''Browser Name'']"
      "tag_value_label labelled_services = Map.empty"
      "get_standardized_key labelled_services =
         (\<lambda>key. if take 7 key = ''sentry:'' then drop 7 key else key)"
    by (simp_all add: labelled_services_def sample_services_def)
  have t1: "truthy_str (get_option included_tag_keys (project_of n))"
    by (simp add: n_def sample_defs plugin_defs)
  have t2: "truthy_str (get_option excluded_tag_keys (project_of n))"
    by (simp add: n_def sample_defs plugin_defs)
  from tag_fields_filter_display_key
         [OF h1 h2 [symmetric] h3 [symmetric] refl, of labelled_services]
  have "get_tags labelled_services (notification_event n)
          = [(''Environment'', ''prod''), (''Browser Name'', ''ff''),
             (''application_name'', ''web'')] \<and>
        notify_fields labelled_services n =
          base_fields labelled_services n @
          [\<lparr>field_title = ''Environment'', field_value = ''prod'', field_short = True\<rparr>]"
    by (simp add: e l t1 t2 lower_def lower_char_eval)
  with h1 e show ?thesis unfolding n_def by simp
qed

text \<open>
  Claim C2 as stated tests the raw key of the tag. The tag \<^verbatim>\<open>browser\<close>, labelled
  \<^verbatim>\<open>Browser Name\<close>, keeps its field although its raw key (which is also its
  standardised key) is in the configured \<^verbatim>\<open>excluded_tag_keys\<close>; the tag \<^verbatim>\<open>env\<close>, labelled
  \<^verbatim>\<open>Environment\<close>, gets no field although its raw key is in the configured
  \<^verbatim>\<open>included_tag_keys\<close> and nothing is excluded.
\<close>

theorem tag_filters_raw_key_counterexample:
  "event_tags
     (notification_event
        (with_tags [(''browser'', ''ff'')]
           (with_options
              (\<lambda>opts. opts\<lparr>included_tag_keys := None, excluded_tag_keys := Some ''browser''\<rparr>)
              sample_notification)))
     = [(''browser'', ''ff'')] \<and>
   set_or_empty
     (get_tag_list excluded_tag_keys
        (project_of
           (with_tags [(''browser'', ''ff'')]
              (with_options
                 (\<lambda>opts. opts\<lparr>included_tag_keys := None,
                               excluded_tag_keys := Some ''browser''\<rparr>)
                 sample_notification))))
     = {''browser''} \<and>
   get_standardized_key labelled_services ''browser'' = ''browser'' \<and>
   notify_fields labelled_services
     (with_tags [(''browser'', ''ff'')]
        (with_options
           (\<lambda>opts. opts\<lparr>included_tag_keys := None, excluded_tag_keys := Some ''browser''\<rparr>)
           sample_notification))
     = [\<lparr>field_title = ''Culprit'', field_value = ''views.index'', field_short = False\<rparr>,
        \<lparr>field_title = ''Project'', field_value = ''ops shop'', field_short = True\<rparr>,
        \<lparr>field_title = ''Triggered By'',
          field_value = ''<https://sentry/acme/shop/rules/ | any>'', field_short = False\<rparr>,
        \<lparr>field_title = ''Browser Name'', field_value = ''ff'', field_short = True\<rparr>] \<and>
   event_tags (notification_event (with_tags [(''env'', ''prod'')] sample_notification))
     = [(''env'', ''prod'')] \<and>
   set_or_empty
     (get_tag_list included_tag_keys
        (project_of (with_tags [(''env'', ''prod'')] sample_notification)))
     = {''env'', ''release''} \<and>
   set_or_empty
     (get_tag_list excluded_tag_keys
        (project_of (with_tags [(''env'', ''prod'')] sample_notification)))
     = {} \<and>
   get_standardized_key labelled_services ''env'' = ''env'' \<and>
   notify_fields labelled_services (with_tags [(''env'', ''prod'')] sample_notification)
     = [\<lparr>field_title = ''Culprit'', field_value = ''views.index'', field_short = False\<rparr>,
        \<lparr>field_title = ''Project'', field_value = ''ops shop'', field_short = True\<rparr>,
        \<lparr>field_title = ''Triggered By'',
          field_value = ''<https://sentry/acme/shop/rules/ | any>'', field_short = False\<rparr>]"
proof -
  have 1: "event_tags
     (notification_event
        (with_tags [(''browser'', ''ff'')]
           (with_options
              (\<lambda>opts. opts\<lparr>included_tag_keys := None, excluded_tag_keys := Some ''browser''\<rparr>)
              sample_notification)))
     = [(''browser'', ''ff'')]"
    by (simp add: sample_defs)
  have 2: "set_or_empty
     (get_tag_list excluded_tag_keys
        (project_of
           (with_tags [(''browser'', ''ff'')]
              (with_options
                 (\<lambda>opts. opts\<lparr>included_tag_keys := None,
                               excluded_tag_keys := Some ''browser''\<rparr>)
                 sample_notification))))
     = {''browser''}"
    by (simp add: sample_defs plugin_defs)
  have 3: "get_standardized_key labelled_services ''browser'' = ''browser''"
    by (simp add: labelled_services_def sample_services_def)
  have 4: "notify_fields labelled_services
     (with_tags [(''browser'', ''ff'')]
        (with_options
           (\<lambda>opts. opts\<lparr>included_tag_keys := None, excluded_tag_keys := Some ''browser''\<rparr>)
           sample_notification))
     = [\<lparr>field_title = ''Culprit'', field_value = ''views.index'', field_short = False\<rparr>,
        \<lparr>field_title = ''Project'', field_value = ''ops shop'', field_short = True\<rparr>,
        \<lparr>field_title = ''Triggered By'',
          field_value = ''<https://sentry/acme/shop/rules/ | any>'', field_short = False\<rparr>,
        \<lparr>field_title = ''Browser Name'', field_value = ''ff'', field_short = True\<rparr>]"
    by (simp add: labelled_services_def sample_defs plugin_defs Let_def)
  have 5: "event_tags (notification_event (with_tags [(''env'', ''prod'')] sample_notification))
     = [(''env'', ''prod'')]"
    by (simp add: sample_defs)
  have 6: "set_or_empty
     (get_tag_list included_tag_keys
        (project_of (with_tags [(''env'', ''prod'')] sample_notification)))
     = {''env'', ''release''}"
    by (simp add: sample_defs plugin_defs)
  have 7: "set_or_empty
     (get_tag_list excluded_tag_keys
        (project_of (with_tags [(''env'', ''prod'')] sample_notification)))
     = {}"
    by (simp add: sample_defs plugin_defs)
  have 8: "get_standardized_key labelled_services ''env'' = ''env''"
    by (simp add: labelled_services_def sample_services_def)
  have 9: "notify_fields labelled_services (with_tags [(''env'', ''prod'')] sample_notification)
     = [\<lparr>field_title = ''Culprit'', field_value = ''views.index'', field_short = False\<rparr>,
        \<lparr>field_title = ''Project'', field_value = ''ops shop'', field_short = True\<rparr>,
        \<lparr>field_title = ''Triggered By'',
          field_value = ''<https://sentry/acme/shop/rules/ | any>'', field_short = False\<rparr>]"
    by (simp add: labelled_services_def sample_defs plugin_defs Let_def)
  from 1 2 3 4 5 6 7 8 9 show ?thesis by (intro conjI)
qed

text \<open>
  Claim C3. With \<^verbatim>\<open>sort_on_tag\<close> on: an unconfigured project sends nothing; on a
  configured one, if no extracted tag has the routing key (the trimmed
  \<^verbatim>\<open>sort_on_tag_key\<close> option, by default \<^verbatim>\<open>application_name\<close>), the requests sent are
  the root send alone when \<^verbatim>\<open>send_to_root_too\<close> is on and none otherwise. The root send,
  when it is made, comes first, before every routed send, and its payload carries the
  default channel.
\<close>

theorem no_routing_tag_no_routed_posts:
  assumes "truthy_bool (get_option sort_on_tag (project_of notification))"
    and "key = strip (str_or (get_option sort_on_tag_key (project_of notification))
                        ''application_name'')"
    and "root = (\<lambda>w. \<lparr>request_url = strip_chars '' '' w, request_method = ''POST'',
                       request_payload = notify_payload sv notification\<rparr>)"
  shows "(\<not> is_configured (project_of notification) \<longrightarrow>
            snd (notify sv notification sent) = sent) \<and>
         (\<forall>w. get_option webhook (project_of notification) = Some w \<and> w \<noteq> [] \<longrightarrow>
            ((\<forall>(k, v) \<in> set (get_tags sv (notification_event notification)). k \<noteq> key) \<longrightarrow>
               snd (notify sv notification sent) =
                 sent @ (if truthy_bool (get_option send_to_root_too (project_of notification))
                         then [root w] else [])) \<and>
            (truthy_bool (get_option send_to_root_too (project_of notification)) \<longrightarrow>
               (\<exists>routed. snd (notify sv notification sent) = sent @ root w # routed)) \<and>
            payload_channel (request_payload (root w)) =
              (if strip (str_or (get_option channel (project_of notification)) []) \<noteq> []
               then Some (strip (str_or (get_option channel (project_of notification)) []))
               else None))"
proof -
  have u: "\<not> is_configured (project_of notification) \<longrightarrow>
            snd (notify sv notification sent) = sent"
    by (simp add: notify_def Let_def project_of_def)
  have abc: "((\<forall>(k, v) \<in> set (get_tags sv (notification_event notification)). k \<noteq> key) \<longrightarrow>
               snd (notify sv notification sent) =
                 sent @ (if truthy_bool (get_option send_to_root_too (project_of notification))
                         then [root w] else [])) \<and>
            (truthy_bool (get_option send_to_root_too (project_of notification)) \<longrightarrow>
               (\<exists>routed. snd (notify sv notification sent) = sent @ root w # routed)) \<and>
            payload_channel (request_payload (root w)) =
              (if strip (str_or (get_option channel (project_of notification)) []) \<noteq> []
               then Some (strip (str_or (get_option channel (project_of notification)) []))
               else None)"
    if w: "get_option webhook (project_of notification) = Some w" "w \<noteq> []" for w
  proof -
    note nf = notify_sorted [OF w assms(1), of sv sent]
    have a: "(\<forall>(k, v) \<in> set (get_tags sv (notification_event notification)). k \<noteq> key) \<longrightarrow>
              snd (notify sv notification sent) =
                sent @ (if truthy_bool (get_option send_to_root_too (project_of notification))
                        then [root w] else [])"
    proof
      assume "\<forall>(k, v) \<in> set (get_tags sv (notification_event notification)). k \<noteq> key"
      then have "find_tag_value key (get_tags sv (notification_event notification)) = None"
        by (simp add: find_tag_value_None)
      then show "snd (notify sv notification sent) =
                sent @ (if truthy_bool (get_option send_to_root_too (project_of notification))
                        then [root w] else [])"
        unfolding nf assms(3) using assms(2) by (simp add: Let_def split: sum.splits)
    qed
    have b: "truthy_bool (get_option send_to_root_too (project_of notification)) \<longrightarrow>
              (\<exists>routed. snd (notify sv notification sent) = sent @ root w # routed)"
      unfolding nf assms(3) by (simp add: Let_def split: sum.splits option.splits)
    have c: "payload_channel (request_payload (root w)) =
             (if strip (str_or (get_option channel (project_of notification)) []) \<noteq> []
              then Some (strip (str_or (get_option channel (project_of notification)) []))
              else None)"
      unfolding assms(3) by (simp add: payload_channel_default)
    from a b c show ?thesis by (intro conjI)
  qed
  from u abc show ?thesis by blast
qed

theorem no_routing_tag_no_routed_posts_witness:
  "truthy_bool (get_option sort_on_tag
      (project_of (with_tags [(''env'', ''prod'')] sample_notification))) \<and>
   get_option webhook (project_of (with_tags [(''env'', ''prod'')] sample_notification))
     = Some ''  https://x  '' \<and>
   get_tags sample_services
     (notification_event (with_tags [(''env'', ''prod'')] sample_notification))
     = [(''env'', ''prod'')] \<and>
   truthy_bool (get_option send_to_root_too
      (project_of (with_tags [(''env'', ''prod'')] sample_notification))) \<and>
   snd (notify sample_services (with_tags [(''env'', ''prod'')] sample_notification) []) =
     [\<lparr>request_url = ''https://x'', request_method = ''POST'',
       request_payload =
         notify_payload sample_services (with_tags [(''env'', ''prod'')] sample_notification)\<rparr>] \<and>
   payload_channel
     (notify_payload sample_services (with_tags [(''env'', ''prod'')] sample_notification))
     = Some ''#general''"
proof -
  let ?n = "with_tags [(''env'', ''prod'')] sample_notification"
  have h1: "truthy_bool (get_option sort_on_tag (project_of ?n))"
    by (simp add: get_option_def truthy_bool_def sample_defs)
  have k: "strip (str_or (get_option sort_on_tag_key (project_of ?n)) ''application_name'')
             = ''application_name''"
    by (simp add: get_option_def str_or_def strip_def strip_chars_def whitespace_def sample_defs)
  have w: "get_option webhook (project_of ?n) = Some ''  https://x  ''"
    by (simp add: get_option_def sample_defs)
  have t: "get_tags sample_services (notification_event ?n) = [(''env'', ''prod'')]"
    by (simp add: get_tags_def sample_defs)
  have r: "truthy_bool (get_option send_to_root_too (project_of ?n))"
    by (simp add: get_option_def truthy_bool_def sample_defs)
  have c: "strip (str_or (get_option channel (project_of ?n)) []) = ''#general''"
    by (simp add: get_option_def sample_defs str_or_def strip_def strip_chars_def whitespace_def)
  have s: "strip_chars '' '' ''  https://x  '' = ''https://x''"
    by (simp add: strip_chars_def)
  from no_routing_tag_no_routed_posts [OF h1 k [symmetric] refl, of sample_services "[]"]
    h1 w t r c s
  show ?thesis by simp
qed

text \<open>
  Claim C4. With \<^verbatim>\<open>sort_on_tag\<close> on, the three value lists present and a tag with the
  routing key, \<^verbatim>\<open>notify\<close> sends (after the root send, if any) one POST for each group
  whose value list contains the tag's value, in the order 1, 2, 3, each with that group's
  (trimmed) channel in the payload: every matching group gets its send, not only the first.
\<close>

theorem routed_posts_one_per_matching_group:
  assumes "truthy_bool (get_option sort_on_tag (project_of notification))"
    and "get_option webhook (project_of notification) = Some w" and "w \<noteq> []"
    and "get_option group_1_tag_values (project_of notification) = Some v1"
    and "get_option group_2_tag_values (project_of notification) = Some v2"
    and "get_option group_3_tag_values (project_of notification) = Some v3"
    and "find_tag_value
           (strip (str_or (get_option sort_on_tag_key (project_of notification))
                     ''application_name''))
           (get_tags sv (notification_event notification)) = Some tag_value"
    and "post = (\<lambda>p. \<lparr>request_url = strip_chars '' '' w, request_method = ''POST'',
                        request_payload = p\<rparr>)"
    and "routed = (\<lambda>values' channel'.
                    if tag_value \<in> set (split_str CHR '','' values')
                    then [post ((notify_payload sv notification)
                                  \<lparr>payload_channel :=
                                     Some (strip (str_or channel' []))\<rparr>)]
                    else [])"
  shows "notify sv notification sent =
           (Returned,
            sent @
            (if truthy_bool (get_option send_to_root_too (project_of notification))
             then [post (notify_payload sv notification)] else []) @
            routed v1 (get_option group_1_channel (project_of notification)) @
            routed v2 (get_option group_2_channel (project_of notification)) @
            routed v3 (get_option group_3_channel (project_of notification)))"
proof -
  have g: "routing_groups (project_of notification) =
             Inr [\<lparr>tag_values = split_str CHR '','' v1,
                    routing_channel = strip (str_or (get_option group_1_channel (project_of notification)) [])\<rparr>,
                  \<lparr>tag_values = split_str CHR '','' v2,
                    routing_channel = strip (str_or (get_option group_2_channel (project_of notification)) [])\<rparr>,
                  \<lparr>tag_values = split_str CHR '','' v3,
                    routing_channel = strip (str_or (get_option group_3_channel (project_of notification)) [])\<rparr>]"
    using assms(4,5,6) by (simp add: routing_groups_def split_values_def Let_def)
  show ?thesis
    unfolding notify_sorted [OF assms(2) assms(3) assms(1), of sv sent] g assms(8,9)
    using assms(7) by (simp add: Let_def)
qed

theorem routed_posts_one_per_matching_group_witness:
  "truthy_bool (get_option sort_on_tag (project_of sample_notification)) \<and>
   get_option webhook (project_of sample_notification) = Some ''  https://x  '' \<and>
   get_option group_1_tag_values (project_of sample_notification) = Some ''api,web'' \<and>
   get_option group_2_tag_values (project_of sample_notification) = Some ''db'' \<and>
   get_option group_3_tag_values (project_of sample_notification) = Some ''web,worker'' \<and>
   find_tag_value
     (strip (str_or (get_option sort_on_tag_key (project_of sample_notification))
               ''application_name''))
     (get_tags sample_services (notification_event sample_notification)) = Some ''web'' \<and>
   notify sample_services sample_notification [] =
     (Returned,
      [\<lparr>request_url = ''https://x'', request_method = ''POST'',
        request_payload = notify_payload sample_services sample_notification\<rparr>,
       \<lparr>request_url = ''https://x'', request_method = ''POST'',
        request_payload =
          (notify_payload sample_services sample_notification)
            \<lparr>payload_channel := Some ''#one''\<rparr>\<rparr>,
       \<lparr>request_url = ''https://x'', request_method = ''POST'',
        request_payload =
          (notify_payload sample_services sample_notification)
            \<lparr>payload_channel := Some ''#three''\<rparr>\<rparr>])"
proof -
  let ?p = "project_of sample_notification"
  have h1: "truthy_bool (get_option sort_on_tag ?p)"
    by (simp add: get_option_def truthy_bool_def sample_defs)
  have h2: "get_option webhook ?p = Some ''  https://x  ''"
    by (simp add: get_option_def sample_defs)
  have h3: "''  https://x  '' \<noteq> []" by simp
  have g1: "get_option group_1_tag_values ?p = Some ''api,web''"
    by (simp add: get_option_def sample_defs)
  have g2: "get_option group_2_tag_values ?p = Some ''db''"
    by (simp add: get_option_def sample_defs)
  have g3: "get_option group_3_tag_values ?p = Some ''web,worker''"
    by (simp add: get_option_def sample_defs)
  have f: "find_tag_value
     (strip (str_or (get_option sort_on_tag_key ?p) ''application_name''))
     (get_tags sample_services (notification_event sample_notification)) = Some ''web''"
    by (simp add: get_option_def str_or_def strip_def strip_chars_def whitespace_def
          get_tags_def sample_defs)
  have r: "truthy_bool (get_option send_to_root_too ?p)"
    by (simp add: get_option_def truthy_bool_def sample_defs)
  have c: "strip (str_or (get_option group_1_channel ?p) []) = ''#one''"
      "strip (str_or (get_option group_2_channel ?p) []) = ''#two''"
      "strip (str_or (get_option group_3_channel ?p) []) = ''#three''"
    by (simp_all add: get_option_def str_or_def strip_def strip_chars_def whitespace_def
          sample_defs)
  have s: "strip_chars '' '' ''  https://x  '' = ''https://x''"
    by (simp add: strip_chars_def)
  from routed_posts_one_per_matching_group [OF h1 h2 h3 g1 g2 g3 f refl refl, of "[]"]
    h1 h2 g1 g2 g3 f
  show ?thesis by (simp add: r c s)
qed

text \<open>
  Claim C5. On a configured project with \<^verbatim>\<open>sort_on_tag\<close> off, \<^verbatim>\<open>notify\<close> sends exactly
  one POST, to the webhook, and returns; the payload carries the default channel option,
  trimmed, when that is not empty (and no channel otherwise).
\<close>

theorem unsorted_notification_posts_once:
  assumes "is_configured (project_of notification)"
    and "\<not> truthy_bool (get_option sort_on_tag (project_of notification))"
  shows "\<exists>w. get_option webhook (project_of notification) = Some w \<and>
             notify sv notification sent =
               (Returned,
                sent @ [\<lparr>request_url = strip_chars '' '' w, request_method = ''POST'',
                         request_payload = notify_payload sv notification\<rparr>]) \<and>
             payload_channel (notify_payload sv notification) =
               (if strip (str_or (get_option channel (project_of notification)) []) \<noteq> []
                then Some (strip (str_or (get_option channel (project_of notification)) []))
                else None)"
proof -
  from assms(1) obtain w where w: "get_option webhook (project_of notification) = Some w" "w \<noteq> []"
    by (auto simp: is_configured_iff)
  from notify_unsorted [OF w assms(2)] w(1) payload_channel_default show ?thesis by blast
qed

theorem unsorted_notification_posts_once_witness:
  "is_configured (project_of (with_options (\<lambda>opts. opts\<lparr>sort_on_tag := Some False\<rparr>) sample_notification)) \<and>
   \<not> truthy_bool (get_option sort_on_tag
        (project_of (with_options (\<lambda>opts. opts\<lparr>sort_on_tag := Some False\<rparr>) sample_notification))) \<and>
   map request_url
     (snd (notify sample_services
        (with_options (\<lambda>opts. opts\<lparr>sort_on_tag := Some False\<rparr>) sample_notification) []))
     = [''https://x''] \<and>
   map (payload_channel \<circ> request_payload)
     (snd (notify sample_services
        (with_options (\<lambda>opts. opts\<lparr>sort_on_tag := Some False\<rparr>) sample_notification) []))
     = [Some ''#general'']"
proof -
  let ?n = "with_options (\<lambda>opts. opts\<lparr>sort_on_tag := Some False\<rparr>) sample_notification"
  have h1: "is_configured (project_of ?n)"
    by (simp add: is_configured_def get_option_def truthy_str_def sample_defs)
  have h2: "\<not> truthy_bool (get_option sort_on_tag (project_of ?n))"
    by (simp add: get_option_def truthy_bool_def sample_defs)
  have w: "get_option webhook (project_of ?n) = Some ''  https://x  ''"
    by (simp add: get_option_def sample_defs)
  have c: "strip (str_or (get_option channel (project_of ?n)) []) = ''#general''"
    by (simp add: get_option_def sample_defs str_or_def strip_def strip_chars_def whitespace_def)
  from unsorted_notification_posts_once [OF h1 h2, of sample_services "[]"] h1 h2 w c
  show ?thesis by (auto simp: strip_chars_def)
qed

text \<open>
  Claim C6. The payload has one attachment, whose fields are \<open>notify_fields\<close>. A
  long-form field titled \<^verbatim>\<open>Culprit\<close> is among them iff the group's culprit is a
  non-empty string different from the event's short title; it is then the first field,
  its value is the culprit, and no other field is a long-form field with that title.
\<close>

theorem culprit_field_iff:
  assumes "culprit = group_culprit (event_group (notification_event notification))"
    and "title = event_message_short (notification_event notification)"
  shows "(\<exists>a. payload_attachments (notify_payload sv notification) = [a] \<and>
              attachment_fields a = notify_fields sv notification) \<and>
         ((\<exists>f \<in> set (notify_fields sv notification).
              field_title f = ''Culprit'' \<and> \<not> field_short f) \<longleftrightarrow>
          (\<exists>c. culprit = Some c \<and> c \<noteq> [] \<and> c \<noteq> title)) \<and>
         (\<forall>c. culprit = Some c \<and> c \<noteq> [] \<and> c \<noteq> title \<longrightarrow>
            (\<exists>others. notify_fields sv notification =
                \<lparr>field_title = ''Culprit'', field_value = c, field_short = False\<rparr> # others \<and>
                (\<forall>f \<in> set others. \<not> (field_title f = ''Culprit'' \<and> \<not> field_short f))))"
proof -
  obtain ts where ts: "notify_fields sv notification = base_fields sv notification @ ts"
      "\<forall>f \<in> set ts. field_short f"
    using notify_fields_tail by blast
  obtain bs where bs: "base_fields sv notification =
          (case culprit of
             None \<Rightarrow> []
           | Some c \<Rightarrow>
               if c \<noteq> [] \<and> c \<noteq> title
               then [\<lparr>field_title = ''Culprit'', field_value = c, field_short = False\<rparr>]
               else []) @ bs"
      "\<forall>f \<in> set bs. field_title f \<noteq> ''Culprit''"
    unfolding assms using base_fields_culprit by blast
  have a: "\<exists>a. payload_attachments (notify_payload sv notification) = [a] \<and>
              attachment_fields a = notify_fields sv notification"
    by (simp add: notify_payload_def Let_def)
  have b: "(\<exists>f \<in> set (notify_fields sv notification).
              field_title f = ''Culprit'' \<and> \<not> field_short f) \<longleftrightarrow>
          (\<exists>c. culprit = Some c \<and> c \<noteq> [] \<and> c \<noteq> title)"
    unfolding ts(1) bs(1) using ts(2) bs(2) by (auto split: option.splits)
  have c: "\<exists>others. notify_fields sv notification =
                \<lparr>field_title = ''Culprit'', field_value = c, field_short = False\<rparr> # others \<and>
                (\<forall>f \<in> set others. \<not> (field_title f = ''Culprit'' \<and> \<not> field_short f))"
    if "culprit = Some c \<and> c \<noteq> [] \<and> c \<noteq> title" for c
    unfolding ts(1) bs(1) using ts(2) bs(2) that by auto
  from a b c show ?thesis by blast
qed

theorem culprit_field_iff_witness:
  "group_culprit (event_group (notification_event sample_notification)) = Some ''views.index'' \<and>
   ''views.index'' \<noteq> event_message_short (notification_event sample_notification) \<and>
   (\<exists>f \<in> set (notify_fields sample_services sample_notification).
      field_title f = ''Culprit'' \<and> \<not> field_short f) \<and>
   (\<exists>others. notify_fields sample_services sample_notification =
      \<lparr>field_title = ''Culprit'', field_value = ''views.index'', field_short = False\<rparr> # others)"
proof -
  have h1: "group_culprit (event_group (notification_event sample_notification))
              = Some ''views.index''"
    by (simp add: sample_defs)
  have h2: "''views.index'' \<noteq> event_message_short (notification_event sample_notification)"
    by (simp add: sample_defs)
  have h3: "''views.index'' \<noteq> []" by simp
  from culprit_field_iff [OF refl refl, of sample_services sample_notification] h1 h2 h3
  show ?thesis by blast
qed

text \<open>
  Claim C7. When the webhook option of the project is unset, \<^verbatim>\<open>is_configured\<close> is
  false and \<^verbatim>\<open>notify\<close> returns at once: no request is sent and nothing is raised.
\<close>

theorem unconfigured_project_is_skipped:
  assumes "get_option webhook (project_of notification) = None"
  shows "\<not> is_configured (project_of notification) \<and>
         notify sv notification sent = (Returned, sent)"
  using assms by (simp add: notify_def Let_def is_configured_iff project_of_def)

theorem unconfigured_project_is_skipped_witness:
  "get_option webhook
     (project_of (with_options (\<lambda>opts. opts\<lparr>webhook := None\<rparr>) sample_notification)) = None \<and>
   \<not> is_configured
       (project_of (with_options (\<lambda>opts. opts\<lparr>webhook := None\<rparr>) sample_notification)) \<and>
   notify sample_services (with_options (\<lambda>opts. opts\<lparr>webhook := None\<rparr>) sample_notification) []
     = (Returned, [])"
proof -
  have h: "get_option webhook
     (project_of (with_options (\<lambda>opts. opts\<lparr>webhook := None\<rparr>) sample_notification)) = None"
    by (simp add: get_option_def sample_defs)
  from unconfigured_project_is_skipped [OF h, of sample_services "[]"] h show ?thesis by simp
qed

text \<open>
  Claim C8. On a configured project with \<^verbatim>\<open>sort_on_tag\<close> on, if one of the three
  \<^verbatim>\<open>group_i_tag_values\<close> options is \<^verbatim>\<open>None\<close>, \<^verbatim>\<open>notify\<close> raises (the
  \<^verbatim>\<open>AttributeError\<close> of \<^verbatim>\<open>None.split\<close>); nothing catches it.
\<close>

theorem missing_group_values_raise:
  assumes "is_configured (project_of notification)"
    and "truthy_bool (get_option sort_on_tag (project_of notification))"
    and "get_option group_1_tag_values (project_of notification) = None \<or>
         get_option group_2_tag_values (project_of notification) = None \<or>
         get_option group_3_tag_values (project_of notification) = None"
  shows "fst (notify sv notification sent) = Raised AttributeError"
proof -
  from assms(1) obtain w where w: "get_option webhook (project_of notification) = Some w" "w \<noteq> []"
    by (auto simp: is_configured_iff)
  from assms(3) have "routing_groups (project_of notification) = Inl AttributeError"
    by (auto simp: routing_groups_def split_values_def split: option.splits sum.splits)
  with notify_sorted [OF w assms(2), of sv sent] show ?thesis by (simp add: Let_def)
qed

theorem missing_group_values_raise_witness:
  "is_configured (project_of (with_options (\<lambda>opts. opts\<lparr>group_2_tag_values := None\<rparr>) sample_notification)) \<and>
   truthy_bool (get_option sort_on_tag
        (project_of (with_options (\<lambda>opts. opts\<lparr>group_2_tag_values := None\<rparr>) sample_notification))) \<and>
   get_option group_2_tag_values
        (project_of (with_options (\<lambda>opts. opts\<lparr>group_2_tag_values := None\<rparr>) sample_notification)) = None \<and>
   fst (notify sample_services
        (with_options (\<lambda>opts. opts\<lparr>group_2_tag_values := None\<rparr>) sample_notification) [])
     = Raised AttributeError"
proof -
  let ?n = "with_options (\<lambda>opts. opts\<lparr>group_2_tag_values := None\<rparr>) sample_notification"
  have h1: "is_configured (project_of ?n)"
    by (simp add: is_configured_def get_option_def truthy_str_def sample_defs)
  have h2: "truthy_bool (get_option sort_on_tag (project_of ?n))"
    by (simp add: get_option_def truthy_bool_def sample_defs)
  have h3: "get_option group_2_tag_values (project_of ?n) = None"
    by (simp add: get_option_def sample_defs)
  from missing_group_values_raise [OF h1 h2, of sample_services "[]"] h1 h2 h3
  show ?thesis by simp
qed

text \<open>
  Claim C9. For a webhook URL \<open>w\<close> (a non-empty string), the notification on a project
  whose webhook option is \<open>w\<close> with spaces added in front and behind has the same outcome
  and sends the same requests as on the project whose webhook option is \<open>w\<close>; every
  request goes to \<open>w\<close> trimmed of its leading and trailing spaces.
\<close>

theorem webhook_spaces_trimmed:
  assumes "w \<noteq> []"
  shows "notify sv (with_options (\<lambda>opts. opts\<lparr>webhook :=
                       Some (replicate a CHR '' '' @ w @ replicate b CHR '' '')\<rparr>)
                     notification) sent =
         notify sv (with_options (\<lambda>opts. opts\<lparr>webhook := Some w\<rparr>) notification) sent \<and>
         (\<forall>r \<in> set (snd (notify sv
                         (with_options (\<lambda>opts. opts\<lparr>webhook := Some w\<rparr>) notification) [])).
            request_url r = strip_chars '' '' w)"
proof -
  have p: "replicate a CHR '' '' @ w @ replicate b CHR '' '' \<noteq> []"
    using assms by simp
  have s: "strip_chars '' '' (replicate a CHR '' '' @ w @ replicate b CHR '' '') =
           strip_chars '' '' w"
    by (rule strip_chars_padded) simp
  have 1: "notify sv (with_options (\<lambda>opts. opts\<lparr>webhook :=
                       Some (replicate a CHR '' '' @ w @ replicate b CHR '' '')\<rparr>)
                     notification) sent =
         notify sv (with_options (\<lambda>opts. opts\<lparr>webhook := Some w\<rparr>) notification) sent"
    unfolding notify_with_webhook [OF p] notify_with_webhook [OF assms] s ..
  have 2: "\<forall>r \<in> set (snd (notify sv
                         (with_options (\<lambda>opts. opts\<lparr>webhook := Some w\<rparr>) notification) [])).
            request_url r = strip_chars '' '' w"
    unfolding notify_with_webhook [OF assms]
    by (auto simp: Let_def split: sum.splits option.splits)
  from 1 2 show ?thesis ..
qed

theorem webhook_spaces_trimmed_witness:
  "''https://x'' \<noteq> [] \<and>
   notify sample_services
     (with_options (\<lambda>opts. opts\<lparr>webhook := Some ''  https://x  ''\<rparr>) sample_notification) [] =
   notify sample_services
     (with_options (\<lambda>opts. opts\<lparr>webhook := Some ''https://x''\<rparr>) sample_notification) [] \<and>
   map request_url (snd (notify sample_services
     (with_options (\<lambda>opts. opts\<lparr>webhook := Some ''https://x''\<rparr>) sample_notification) [])) =
     [''https://x'', ''https://x'', ''https://x'']"
proof -
  have h: "''https://x'' \<noteq> []" by simp
  have u: "map request_url (snd (notify sample_services
     (with_options (\<lambda>opts. opts\<lparr>webhook := Some ''https://x''\<rparr>) sample_notification) [])) =
     [''https://x'', ''https://x'', ''https://x'']"
    by (simp add: sample_defs plugin_defs Let_def)
  from webhook_spaces_trimmed [OF h, of sample_services 2 2 sample_notification "[]"] u
  show ?thesis by (simp add: numeral_2_eq_2)
qed

text \<open>
  Claim C10. The value list of a routing group is the option split at its commas and
  nothing else: joining the entries with commas gives the option back, character for
  character, and no entry holds a comma. \<^verbatim>\<open>get_tag_list\<close> on the same string gives the
  trimmed, lower-cased entries instead. So \<^verbatim>\<open>"a, b"\<close> has the entries \<^verbatim>\<open>"a"\<close> and
  \<^verbatim>\<open>" b"\<close>; \<^verbatim>\<open>"b"\<close> is not among them, though it is in the set \<^verbatim>\<open>get_tag_list\<close>
  builds. With no root send, \<^verbatim>\<open>notify\<close> sends nothing iff the tag's value is equal to
  no entry of the three lists.
\<close>

theorem group_tag_values_verbatim:
  "split_values (Some s) = Inr (split_str CHR '','' s) \<and>
   join '','' (split_str CHR '','' s) = s \<and>
   (\<forall>e \<in> set (split_str CHR '','' s). CHR '','' \<notin> set e) \<and>
   (get_option name project = Some s \<and> s \<noteq> [] \<longrightarrow>
      get_tag_list name project =
        Some ((\<lambda>tag. lower (strip tag)) ` set (split_str CHR '','' s))) \<and>
   split_str CHR '','' ''a, b'' = [''a'', '' b''] \<and>
   ''b'' \<notin> set (split_str CHR '','' ''a, b'') \<and>
   ''b'' \<in> (\<lambda>tag. lower (strip tag)) ` set (split_str CHR '','' ''a, b'') \<and>
   (truthy_bool (get_option sort_on_tag (project_of notification)) \<and>
    is_configured (project_of notification) \<and>
    \<not> truthy_bool (get_option send_to_root_too (project_of notification)) \<and>
    get_option group_1_tag_values (project_of notification) = Some v1 \<and>
    get_option group_2_tag_values (project_of notification) = Some v2 \<and>
    get_option group_3_tag_values (project_of notification) = Some v3 \<and>
    find_tag_value
      (strip (str_or (get_option sort_on_tag_key (project_of notification))
                ''application_name''))
      (get_tags sv (notification_event notification)) = Some tag_value \<longrightarrow>
    (snd (notify sv notification []) = [] \<longleftrightarrow>
       tag_value \<notin> set (split_str CHR '','' v1) \<union> set (split_str CHR '','' v2) \<union>
                    set (split_str CHR '','' v3)))"
proof -
  have 1: "split_values (Some s) = Inr (split_str CHR '','' s)"
    by (simp add: split_values_def Let_def)
  have 2: "join '','' (split_str CHR '','' s) = s"
    by (rule join_split_str)
  have 3: "\<forall>e \<in> set (split_str CHR '','' s). CHR '','' \<notin> set e"
    using split_str_no_sep by blast
  have 4: "get_option name project = Some s \<and> s \<noteq> [] \<longrightarrow>
      get_tag_list name project =
        Some ((\<lambda>tag. lower (strip tag)) ` set (split_str CHR '','' s))"
    by (simp add: get_tag_list_def)
  have 5: "split_str CHR '','' ''a, b'' = [''a'', '' b'']"
    by simp
  have 6: "''b'' \<notin> set (split_str CHR '','' ''a, b'')"
    by simp
  have 7: "''b'' \<in> (\<lambda>tag. lower (strip tag)) ` set (split_str CHR '','' ''a, b'')"
    by (simp add: lower_def lower_char_eval strip_def strip_chars_def
          whitespace_def)
  have 8: "snd (notify sv notification []) = [] \<longleftrightarrow>
       tag_value \<notin> set (split_str CHR '','' v1) \<union> set (split_str CHR '','' v2) \<union>
                    set (split_str CHR '','' v3)"
    if h: "truthy_bool (get_option sort_on_tag (project_of notification)) \<and>
    is_configured (project_of notification) \<and>
    \<not> truthy_bool (get_option send_to_root_too (project_of notification)) \<and>
    get_option group_1_tag_values (project_of notification) = Some v1 \<and>
    get_option group_2_tag_values (project_of notification) = Some v2 \<and>
    get_option group_3_tag_values (project_of notification) = Some v3 \<and>
    find_tag_value
      (strip (str_or (get_option sort_on_tag_key (project_of notification))
                ''application_name''))
      (get_tags sv (notification_event notification)) = Some tag_value"
  proof -
    from h obtain w where w: "get_option webhook (project_of notification) = Some w" "w \<noteq> []"
      by (auto simp: is_configured_iff)
    from h have s: "truthy_bool (get_option sort_on_tag (project_of notification))" by blast
    have g: "routing_groups (project_of notification) =
             Inr [\<lparr>tag_values = split_str CHR '','' v1,
                    routing_channel = strip (str_or (get_option group_1_channel (project_of notification)) [])\<rparr>,
                  \<lparr>tag_values = split_str CHR '','' v2,
                    routing_channel = strip (str_or (get_option group_2_channel (project_of notification)) [])\<rparr>,
                  \<lparr>tag_values = split_str CHR '','' v3,
                    routing_channel = strip (str_or (get_option group_3_channel (project_of notification)) [])\<rparr>]"
      using h by (simp add: routing_groups_def split_values_def Let_def)
    show ?thesis
      unfolding notify_sorted [OF w s, of sv "[]"] g
      using h by (simp add: Let_def)
  qed
  from 1 2 3 4 5 6 7 8 show ?thesis by blast
qed

theorem group_tag_values_verbatim_witness:
  "(let n = with_tags [(''application_name'', ''b'')]
              (with_options
                 (\<lambda>opts. opts\<lparr>included_tag_keys := Some ''a, b'',
                               send_to_root_too := None,
                               group_1_tag_values := Some ''a, b'',
                               group_2_tag_values := Some [],
                               group_3_tag_values := Some []\<rparr>)
                 sample_notification)
    in get_option included_tag_keys (project_of n) = Some ''a, b'' \<and>
       get_tag_list included_tag_keys (project_of n) = Some {''a'', ''b''} \<and>
       truthy_bool (get_option sort_on_tag (project_of n)) \<and>
       is_configured (project_of n) \<and>
       \<not> truthy_bool (get_option send_to_root_too (project_of n)) \<and>
       get_option group_1_tag_values (project_of n) = Some ''a, b'' \<and>
       get_option group_2_tag_values (project_of n) = Some [] \<and>
       get_option group_3_tag_values (project_of n) = Some [] \<and>
       find_tag_value
         (strip (str_or (get_option sort_on_tag_key (project_of n)) ''application_name''))
         (get_tags sample_services (notification_event n)) = Some ''b'' \<and>
       snd (notify sample_services n []) = [])"
proof -
  define n where "n = with_tags [(''application_name'', ''b'')]
              (with_options
                 (\<lambda>opts. opts\<lparr>included_tag_keys := Some ''a, b'',
                               send_to_root_too := None,
                               group_1_tag_values := Some ''a, b'',
                               group_2_tag_values := Some [],
                               group_3_tag_values := Some []\<rparr>)
                 sample_notification)"
  have h1: "get_option included_tag_keys (project_of n) = Some ''a, b''"
    by (simp add: n_def get_option_def sample_defs)
  have h2: "truthy_bool (get_option sort_on_tag (project_of n))"
    by (simp add: n_def get_option_def truthy_bool_def sample_defs)
  have h3: "is_configured (project_of n)"
    by (simp add: n_def is_configured_def get_option_def truthy_str_def sample_defs)
  have h4: "\<not> truthy_bool (get_option send_to_root_too (project_of n))"
    by (simp add: n_def get_option_def truthy_bool_def sample_defs)
  have g1: "get_option group_1_tag_values (project_of n) = Some ''a, b''"
    by (simp add: n_def get_option_def sample_defs)
  have g2: "get_option group_2_tag_values (project_of n) = Some []"
    by (simp add: n_def get_option_def sample_defs)
  have g3: "get_option group_3_tag_values (project_of n) = Some []"
    by (simp add: n_def get_option_def sample_defs)
  have f: "find_tag_value
         (strip (str_or (get_option sort_on_tag_key (project_of n)) ''application_name''))
         (get_tags sample_services (notification_event n)) = Some ''b''"
    by (simp add: n_def get_option_def str_or_def strip_def strip_chars_def whitespace_def
          get_tags_def sample_defs)
  have l: "(\<lambda>tag. lower (strip tag)) ` set (split_str CHR '','' ''a, b'') = {''a'', ''b''}"
    by (simp add: lower_def lower_char_eval strip_def strip_chars_def
          whitespace_def)
  from group_tag_values_verbatim
         [of "''a, b''" included_tag_keys "project_of n" n "''a, b''" "[]" "[]"
             sample_services "''b''"]
    h1 h2 h3 h4 g1 g2 g3 f l
  have "get_tag_list included_tag_keys (project_of n) = Some {''a'', ''b''} \<and>
        snd (notify sample_services n []) = []"
    by simp
  with h1 h2 h3 h4 g1 g2 g3 f show ?thesis
    unfolding Let_def n_def [symmetric] by blast
qed

end
